theory Spec2Isabelle
  imports Main "HOL-Library.Word" "HOL-Library.Char_ord" "HOL-Library.List_Lexorder"
begin

section \<open>The project model\<close>

text \<open>
  The structs of the project file of package model, as records. A pointer that may be
  nil (\<^verbatim>\<open>*bool\<close>) is an option; a slice is a list (a nil slice and an empty one are
  both the empty list: the code only ever takes their length or ranges over them).
  Record fields are global names in HOL, so each field carries its struct's prefix:
  \<open>bvt_Name\<close> is \<^verbatim>\<open>BuildVariantTaskUnit.Name\<close>, \<open>pt_Name\<close> is \<^verbatim>\<open>ProjectTask.Name\<close>.
\<close>

record TaskUnitDependency =
  dep_Name :: string
  dep_Variant :: string
  dep_Status :: string
  dep_PatchOptional :: bool

record TaskUnitRequirement =
  req_Name :: string
  req_Variant :: string

record PluginCommandConf =
  cmd_Function :: string
  cmd_Type :: string
  cmd_DisplayName :: string
  cmd_Command :: string
  cmd_Variants :: "string list"
  cmd_TimeoutSecs :: int

record BuildVariantTaskUnit =
  bvt_Name :: string
  bvt_IsGroup :: bool
  bvt_GroupName :: string
  bvt_Patchable :: "bool option"
  bvt_Priority :: "64 word"
  bvt_DependsOn :: "TaskUnitDependency list"
  bvt_Requires :: "TaskUnitRequirement list"
  bvt_Distros :: "string list"
  bvt_ExecTimeoutSecs :: int
  bvt_Stepback :: "bool option"

record DisplayTask =
  dt_Name :: string
  dt_ExecutionTasks :: "string list"

record BuildVariant =
  bv_Name :: string
  bv_DisplayName :: string
  bv_Disabled :: bool
  bv_Tags :: "string list"
  bv_RunOn :: "string list"
  bv_Tasks :: "BuildVariantTaskUnit list"
  bv_DisplayTasks :: "DisplayTask list"

record TaskGroup =
  tg_Name :: string
  tg_MaxHosts :: int
  tg_Tasks :: "string list"
  tg_Tags :: "string list"
  tg_ShareProcs :: bool

record ProjectTask =
  pt_Name :: string
  pt_Priority :: "64 word"
  pt_ExecTimeoutSecs :: int
  pt_DependsOn :: "TaskUnitDependency list"
  pt_Requires :: "TaskUnitRequirement list"
  pt_Commands :: "PluginCommandConf list"
  pt_Tags :: "string list"
  pt_Patchable :: "bool option"
  pt_Stepback :: "bool option"

record Project =
  p_Identifier :: string
  p_BuildVariants :: "BuildVariant list"
  p_TaskGroups :: "TaskGroup list"
  p_Tasks :: "ProjectTask list"

record TVPair =
  Variant :: string
  TaskName :: string

record TaskVariantPairs =
  tvp_ExecTasks :: "TVPair list"
  tvp_DisplayTasks :: "TVPair list"

text \<open>
  \<^verbatim>\<open>type TaskIdTable map[TVPair]string\<close>: a nil table and an empty one read alike
  (a missing key reads as ""), so both are the empty map; \<^verbatim>\<open>GetId\<close> is below.
\<close>

type_synonym TaskIdTable = "TVPair \<rightharpoonup> string"

record TaskIdConfig =
  cfg_ExecutionTasks :: TaskIdTable
  cfg_DisplayTasks :: TaskIdTable

text \<open>
  The version record (package version) supplies \<^verbatim>\<open>Revision\<close>, \<^verbatim>\<open>Id\<close>,
  \<^verbatim>\<open>Requester\<close> and \<^verbatim>\<open>CreateTime\<close>; the creation time is a wall-clock reading.
\<close>

record Time =
  t_Year :: nat
  t_Month :: nat
  t_Day :: nat
  t_Hour :: nat
  t_Minute :: nat
  t_Second :: nat
  t_Nanosecond :: nat

record Version =
  v_Revision :: string
  v_Id :: string
  v_Requester :: string
  v_CreateTime :: Time

text \<open>
  The patch document (package patch): the requested variant and task names. An alias
  rule of the alias store: the fields \<^verbatim>\<open>BuildProjectTVPairsWithAlias\<close> reads.
\<close>

record Patch =
  patch_BuildVariants :: "string list"
  patch_Tasks :: "string list"

record ProjectAlias =
  a_Variant :: string
  a_Task :: string
  a_Tags :: "string list"

text \<open>
  What stops a call short of its result: a nil pointer dereference (a Go panic), a
  pattern that \<^verbatim>\<open>regexp.Compile\<close> rejects, an error of the alias store.
\<close>

datatype failure = NilDereference | RegexpError string | AliasStoreError string

text \<open>
  The collaborators the core calls that are not in these files, taken as parameters:
  \<^verbatim>\<open>util.CleanName\<close>, \<^verbatim>\<open>evergreen.IsPatchRequester\<close>,
  \<^verbatim>\<open>v.CreateTime.Format(build.IdTimeLayout)\<close>, \<^verbatim>\<open>regexp.Compile\<close> (a compiled
  expression is its \<^verbatim>\<open>MatchString\<close>; \<open>None\<close> is a compile error),
  \<^verbatim>\<open>FindAliasInProject\<close>, \<^verbatim>\<open>IncludePatchDependencies\<close> and
  \<^verbatim>\<open>patchDoc.SyncVariantsTasks(tasks.TVPairsToVariantTasks())\<close>.
  Every theorem below holds for all of them unless it says otherwise.
\<close>

record Externals =
  CleanName :: "string \<Rightarrow> string"
  IsPatchRequester :: "string \<Rightarrow> bool"
  FormatIdTime :: "Time \<Rightarrow> string"
  RegexpCompile :: "string \<Rightarrow> (string \<Rightarrow> bool) option"
  FindAliasInProject :: "string \<Rightarrow> string \<Rightarrow> failure + ProjectAlias list"
  IncludePatchDependencies :: "Project \<Rightarrow> TVPair list \<Rightarrow> TVPair list"
  SyncVariantsTasks :: "TaskVariantPairs \<Rightarrow> Patch \<Rightarrow> Patch"

text \<open>
  Modelled from the spec: \<^verbatim>\<open>util.StringSliceContains\<close> and
  \<^verbatim>\<open>util.StringSliceIntersection\<close> are not in these files. The first says whether
  the slice holds the string ("present in the requested set"); of the second only
  whether the result is empty is read ("the task's tag set intersects them
  non-emptily"), so it is the elements of the first slice that the second holds.
\<close>

definition StringSliceContains :: "string list \<Rightarrow> string \<Rightarrow> bool" where
  "StringSliceContains strs item = (item \<in> set strs)"

definition StringSliceIntersection :: "string list \<Rightarrow> string list \<Rightarrow> string list" where
  "StringSliceIntersection a b = filter (\<lambda>x. x \<in> set b) a"

section \<open>Override merge\<close>

text \<open>
  \<^verbatim>\<open>func (bvt *BuildVariantTaskUnit) Populate(pt ProjectTask)\<close>: six guarded
  assignments, in the order of the source; the updated unit is returned.
\<close>

definition Populate :: "BuildVariantTaskUnit \<Rightarrow> ProjectTask \<Rightarrow> BuildVariantTaskUnit" where
  "Populate bvt pt =
    (let b1 = (if length (bvt_DependsOn bvt) = 0
               then bvt\<lparr>bvt_DependsOn := pt_DependsOn pt\<rparr> else bvt);
         b2 = (if length (bvt_Requires b1) = 0
               then b1\<lparr>bvt_Requires := pt_Requires pt\<rparr> else b1);
         b3 = (if bvt_Priority b2 = 0
               then b2\<lparr>bvt_Priority := pt_Priority pt\<rparr> else b2);
         b4 = (if bvt_Patchable b3 = None
               then b3\<lparr>bvt_Patchable := pt_Patchable pt\<rparr> else b3);
         b5 = (if bvt_ExecTimeoutSecs b4 = 0
               then b4\<lparr>bvt_ExecTimeoutSecs := pt_ExecTimeoutSecs pt\<rparr> else b4);
         b6 = (if bvt_Stepback b5 = None
               then b5\<lparr>bvt_Stepback := pt_Stepback pt\<rparr> else b5)
     in b6)"

section \<open>Lookups\<close>

text \<open>
  \<^verbatim>\<open>FindTaskGroup\<close>, \<^verbatim>\<open>FindBuildVariant\<close> and \<^verbatim>\<open>FindProjectTask\<close> return a
  pointer to the first element with the name, or nil.
\<close>

definition FindTaskGroup :: "Project \<Rightarrow> string \<Rightarrow> TaskGroup option" where
  "FindTaskGroup p name = find (\<lambda>tg. tg_Name tg = name) (p_TaskGroups p)"

definition FindBuildVariant :: "Project \<Rightarrow> string \<Rightarrow> BuildVariant option" where
  "FindBuildVariant p build = find (\<lambda>b. bv_Name b = build) (p_BuildVariants p)"

definition FindProjectTask :: "Project \<Rightarrow> string \<Rightarrow> ProjectTask option" where
  "FindProjectTask p name = find (\<lambda>t. pt_Name t = name) (p_Tasks p)"

text \<open>
  \<^verbatim>\<open>tgMap := map[string]TaskGroup{}; for _, tg := range groups { tgMap[tg.Name] = tg }\<close>:
  a later group of the same name replaces an earlier one.
\<close>

definition mkTgMap :: "TaskGroup list \<Rightarrow> (string \<rightharpoonup> TaskGroup)" where
  "mkTgMap groups = fold (\<lambda>tg m. m(tg_Name tg \<mapsto> tg)) groups Map.empty"

text \<open>
  The loop of \<^verbatim>\<open>FindTaskForVariant\<close> over \<^verbatim>\<open>bv.Tasks\<close>. The first branch
  guards the result of \<^verbatim>\<open>FindProjectTask\<close> against nil; the task-group branch
  dereferences it unguarded (\<^verbatim>\<open>bvt.Populate(*p.FindProjectTask(task))\<close>), which
  panics when the project has no task of that name.
\<close>

fun findInTasks ::
  "Project \<Rightarrow> (string \<rightharpoonup> TaskGroup) \<Rightarrow> string \<Rightarrow> BuildVariantTaskUnit list
    \<Rightarrow> failure + BuildVariantTaskUnit option" where
  "findInTasks p tgMap task [] = Inr None"
| "findInTasks p tgMap task (bvt # rest) =
    (case (if bvt_Name bvt = task then FindProjectTask p task else None) of
       Some projectTask \<Rightarrow> Inr (Some (Populate bvt projectTask))
     | None \<Rightarrow>
        (case tgMap (bvt_Name bvt) of
           Some tg \<Rightarrow>
             if task \<in> set (tg_Tasks tg)
             then (case FindProjectTask p task of
                     None \<Rightarrow> Inl NilDereference
                   | Some projectTask \<Rightarrow> Inr (Some (Populate bvt projectTask)))
             else findInTasks p tgMap task rest
         | None \<Rightarrow> findInTasks p tgMap task rest))"

definition FindTaskForVariant ::
  "Project \<Rightarrow> string \<Rightarrow> string \<Rightarrow> failure + BuildVariantTaskUnit option" where
  "FindTaskForVariant p task variant =
    (case FindBuildVariant p variant of
       None \<Rightarrow> Inr None
     | Some bv \<Rightarrow> findInTasks p (mkTgMap (p_TaskGroups p)) task (bv_Tasks bv))"

text \<open>\<^verbatim>\<open>GetDisplayTaskNamek\<close>: the name of the first display task listing the task, or "".\<close>

fun GetDisplayTaskNamek_loop :: "DisplayTask list \<Rightarrow> string \<Rightarrow> string" where
  "GetDisplayTaskNamek_loop [] execTask = ''''"
| "GetDisplayTaskNamek_loop (dt # rest) execTask =
    (if execTask \<in> set (dt_ExecutionTasks dt) then dt_Name dt
     else GetDisplayTaskNamek_loop rest execTask)"

definition GetDisplayTaskNamek :: "BuildVariant \<Rightarrow> string \<Rightarrow> string" where
  "GetDisplayTaskNamek bv execTask = GetDisplayTaskNamek_loop (bv_DisplayTasks bv) execTask"

section \<open>Task and variant pairs\<close>

text \<open>\<^verbatim>\<open>TVPairSet.TaskNames\<close>: the task names of a variant's pairs, each once, in order.\<close>

definition TaskNames :: "TVPair list \<Rightarrow> string \<Rightarrow> string list" where
  "TaskNames tvps variant =
    fold (\<lambda>pair taskNames.
            if Variant pair \<noteq> variant then taskNames
            else if TaskName pair \<in> set taskNames then taskNames
            else taskNames @ [TaskName pair])
         tvps []"

text \<open>\<^verbatim>\<open>TaskIdTable.GetId\<close>: the id of the pair, "" when the table has none.\<close>

definition GetId :: "TaskIdTable \<Rightarrow> string \<Rightarrow> string \<Rightarrow> string" where
  "GetId tt variant taskName =
    (case tt \<lparr>Variant = variant, TaskName = taskName\<rparr> of None \<Rightarrow> [] | Some i \<Rightarrow> i)"

section \<open>Task ids\<close>

text \<open>\<^verbatim>\<open>generateId\<close>: \<^verbatim>\<open>fmt.Sprintf("%s_%s_%s_%s_%s", ...)\<close>.\<close>

definition generateId ::
  "Externals \<Rightarrow> string \<Rightarrow> Project \<Rightarrow> BuildVariant \<Rightarrow> string \<Rightarrow> Version \<Rightarrow> string" where
  "generateId ext name proj projBV rev' v =
    p_Identifier proj @ ''_'' @ bv_Name projBV @ ''_'' @ name @ ''_'' @ rev' @ ''_''
      @ FormatIdTime ext (v_CreateTime v)"

text \<open>
  The revision component, computed alike in \<^verbatim>\<open>NewTaskIdTable\<close> and
  \<^verbatim>\<open>generateIdsForVariant\<close>: \<^verbatim>\<open>rev := v.Revision\<close>, replaced by
  \<^verbatim>\<open>fmt.Sprintf("patch_%s_%s", v.Revision, v.Id)\<close> for a patch requester.
\<close>

definition revisionComponent :: "Externals \<Rightarrow> Version \<Rightarrow> string" where
  "revisionComponent ext v =
    (if IsPatchRequester ext (v_Requester v)
     then ''patch_'' @ v_Revision v @ ''_'' @ v_Id v
     else v_Revision v)"

text \<open>
  \<^verbatim>\<open>NewTaskIdTable\<close>. \<^verbatim>\<open>sort.Stable(p.BuildVariants)\<close> sorts the project's own
  slice by \<^verbatim>\<open>DisplayName\<close> (Go compares strings bytewise, as the order on
  \<open>string\<close> here does), so the project after the call is returned with the tables.
\<close>

definition addTaskIds ::
  "Externals \<Rightarrow> Project \<Rightarrow> Version \<Rightarrow> BuildVariant \<Rightarrow> string \<Rightarrow> BuildVariantTaskUnit
    \<Rightarrow> TaskIdTable \<Rightarrow> TaskIdTable" where
  "addTaskIds ext p v bv rev' t execTable =
    (case FindTaskGroup p (bvt_Name t) of
       Some tg \<Rightarrow>
         fold (\<lambda>groupTask tb.
                 tb(\<lparr>Variant = bv_Name bv, TaskName = groupTask\<rparr>
                      \<mapsto> CleanName ext (generateId ext groupTask p bv rev' v)))
              (tg_Tasks tg) execTable
     | None \<Rightarrow>
         execTable(\<lparr>Variant = bv_Name bv, TaskName = bvt_Name t\<rparr>
                     \<mapsto> CleanName ext (generateId ext (bvt_Name t) p bv rev' v)))"

definition addDisplayIds ::
  "Externals \<Rightarrow> Project \<Rightarrow> Version \<Rightarrow> BuildVariant \<Rightarrow> string \<Rightarrow> DisplayTask
    \<Rightarrow> TaskIdTable \<Rightarrow> TaskIdTable" where
  "addDisplayIds ext p v bv rev' dt displayTable =
    displayTable(\<lparr>Variant = bv_Name bv, TaskName = dt_Name dt\<rparr>
                   \<mapsto> CleanName ext (generateId ext (''display_'' @ dt_Name dt) p bv rev' v))"

definition NewTaskIdTable :: "Externals \<Rightarrow> Project \<Rightarrow> Version \<Rightarrow> Project \<times> TaskIdConfig" where
  "NewTaskIdTable ext p0 v =
    (let p = p0\<lparr>p_BuildVariants := sort_key bv_DisplayName (p_BuildVariants p0)\<rparr>;
         (execTable, displayTable) =
           fold (\<lambda>bv (execTable, displayTable).
                   let rev' = revisionComponent ext v
                   in (fold (addTaskIds ext p v bv rev') (bv_Tasks bv) execTable,
                       fold (addDisplayIds ext p v bv rev') (bv_DisplayTasks bv) displayTable))
                (p_BuildVariants p) (Map.empty, Map.empty)
     in (p, \<lparr>cfg_ExecutionTasks = execTable, cfg_DisplayTasks = displayTable\<rparr>))"

text \<open>
  \<^verbatim>\<open>generateIdsForVariant\<close>. \<^verbatim>\<open>projBV := proj.FindBuildVariant(vt.Variant)\<close> is nil
  for a variant the project does not have, and \<^verbatim>\<open>projBV.Tasks\<close> then panics.
\<close>

definition generateIdsForVariant ::
  "Externals \<Rightarrow> TVPair \<Rightarrow> Project \<Rightarrow> Version \<Rightarrow> TVPair list \<Rightarrow> TaskIdTable
    \<Rightarrow> (string \<rightharpoonup> TaskGroup) \<Rightarrow> failure + TaskIdTable" where
  "generateIdsForVariant ext vt proj v tasks table tgMap =
    (case FindBuildVariant proj (Variant vt) of
       None \<Rightarrow> Inl NilDereference
     | Some projBV \<Rightarrow>
        (let taskNamesForVariant = TaskNames tasks (Variant vt);
             rev' = revisionComponent ext v;
             table1 =
               fold (\<lambda>t tb.
                  if StringSliceContains taskNamesForVariant (bvt_Name t)
                  then tb(\<lparr>Variant = Variant vt, TaskName = bvt_Name t\<rparr>
                            \<mapsto> CleanName ext (generateId ext (bvt_Name t) proj projBV rev' v))
                  else (case tgMap (bvt_Name t) of
                          Some tg \<Rightarrow>
                            fold (\<lambda>name tb'.
                                    tb'(\<lparr>Variant = Variant vt, TaskName = name\<rparr>
                                          \<mapsto> CleanName ext (generateId ext name proj projBV rev' v)))
                                 (tg_Tasks tg) tb
                        | None \<Rightarrow> tb))
                (bv_Tasks projBV) table;
             table2 =
               fold (\<lambda>t tb.
                  if StringSliceContains taskNamesForVariant (dt_Name t)
                  then tb(\<lparr>Variant = Variant vt, TaskName = dt_Name t\<rparr>
                            \<mapsto> CleanName ext
                                 (generateId ext (''display_'' @ dt_Name t) proj projBV rev' v))
                  else tb)
                (bv_DisplayTasks projBV) table1
         in Inr table2))"

text \<open>
  The first loop of \<^verbatim>\<open>NewPatchTaskIdTable\<close>: a pair whose task name is a key of
  \<^verbatim>\<open>tgMap\<close> is replaced by the pairs of the group \<^verbatim>\<open>FindTaskGroup\<close> finds.
\<close>

definition expandTaskGroupPairs ::
  "Project \<Rightarrow> (string \<rightharpoonup> TaskGroup) \<Rightarrow> TVPair list \<Rightarrow> TVPair list" where
  "expandTaskGroupPairs proj tgMap execTasks =
    fold (\<lambda>vt acc.
            case tgMap (TaskName vt) of
              Some _ \<Rightarrow>
                (case FindTaskGroup proj (TaskName vt) of
                   Some tg \<Rightarrow> acc @ map (\<lambda>t. \<lparr>Variant = Variant vt, TaskName = t\<rparr>) (tg_Tasks tg)
                 | None \<Rightarrow> acc)
            | None \<Rightarrow> acc @ [vt])
         execTasks []"

text \<open>
  The two loops over the pairs that skip a variant already in
  \<^verbatim>\<open>processedVariants\<close>.
\<close>

fun generateIdsForPairs ::
  "Externals \<Rightarrow> Project \<Rightarrow> Version \<Rightarrow> TVPair list \<Rightarrow> (string \<rightharpoonup> TaskGroup)
    \<Rightarrow> TVPair list \<Rightarrow> (string \<Rightarrow> bool) \<Rightarrow> TaskIdTable \<Rightarrow> failure + TaskIdTable" where
  "generateIdsForPairs ext proj v tasks tgMap [] processedVariants table = Inr table"
| "generateIdsForPairs ext proj v tasks tgMap (vt # rest) processedVariants table =
    (if processedVariants (Variant vt)
     then generateIdsForPairs ext proj v tasks tgMap rest processedVariants table
     else (case generateIdsForVariant ext vt proj v tasks table tgMap of
             Inl e \<Rightarrow> Inl e
           | Inr table' \<Rightarrow>
               generateIdsForPairs ext proj v tasks tgMap rest
                 (processedVariants(Variant vt := True)) table'))"

definition NewPatchTaskIdTable ::
  "Externals \<Rightarrow> Project \<Rightarrow> Version \<Rightarrow> TaskVariantPairs \<Rightarrow> failure + TaskIdConfig" where
  "NewPatchTaskIdTable ext proj v tasks =
    (let tgMap = mkTgMap (p_TaskGroups proj);
         execTasks = expandTaskGroupPairs proj tgMap (tvp_ExecTasks tasks)
     in case generateIdsForPairs ext proj v execTasks tgMap execTasks (\<lambda>_. False) Map.empty of
          Inl e \<Rightarrow> Inl e
        | Inr execTable \<Rightarrow>
           (case generateIdsForPairs ext proj v (tvp_DisplayTasks tasks) tgMap
                   (tvp_DisplayTasks tasks) (\<lambda>_. False) Map.empty of
              Inl e \<Rightarrow> Inl e
            | Inr displayTable \<Rightarrow>
                Inr \<lparr>cfg_ExecutionTasks = execTable, cfg_DisplayTasks = displayTable\<rparr>))"

section \<open>Display tasks\<close>

text \<open>
  \<^verbatim>\<open>extractDisplayTasks\<close>. The inner \<^verbatim>\<open>range tasks\<close> runs over the slice as it is
  when the loop starts; \<^verbatim>\<open>alreadyAdded\<close> and the grown \<^verbatim>\<open>tasks\<close> are kept from
  one variant to the next.
\<close>

definition addDisplayParents ::
  "BuildVariant \<Rightarrow> string list \<times> (string \<Rightarrow> bool) \<Rightarrow> string list \<times> (string \<Rightarrow> bool)" where
  "addDisplayParents bv st =
    fold (\<lambda>taskName (tasks, alreadyAdded).
            let dt = GetDisplayTaskNamek bv taskName
            in if dt \<noteq> [] \<and> \<not> alreadyAdded dt
               then (tasks @ [dt], alreadyAdded(dt := True))
               else (tasks, alreadyAdded))
         (fst st) st"

definition emitDisplayTasks ::
  "BuildVariant \<Rightarrow> string list \<Rightarrow> TVPair list \<times> TVPair list \<Rightarrow> TVPair list \<times> TVPair list" where
  "emitDisplayTasks bv tasks st =
    fold (\<lambda>dt (pairs, displayTasks).
            if StringSliceContains tasks (dt_Name dt)
            then (pairs @ map (\<lambda>et. \<lparr>Variant = bv_Name bv, TaskName = et\<rparr>) (dt_ExecutionTasks dt),
                  displayTasks @ [\<lparr>Variant = bv_Name bv, TaskName = dt_Name dt\<rparr>])
            else (pairs, displayTasks))
         (bv_DisplayTasks bv) st"

definition extractDisplayTasks ::
  "TVPair list \<Rightarrow> string list \<Rightarrow> string list \<Rightarrow> Project \<Rightarrow> TaskVariantPairs" where
  "extractDisplayTasks pairs0 tasks0 variants p =
    (let (pairs, displayTasks, tasks, alreadyAdded) =
           fold (\<lambda>bv (pairs, displayTasks, tasks, alreadyAdded).
                   if \<not> StringSliceContains variants (bv_Name bv)
                   then (pairs, displayTasks, tasks, alreadyAdded)
                   else let (tasks', alreadyAdded') = addDisplayParents bv (tasks, alreadyAdded);
                            (pairs', displayTasks') = emitDisplayTasks bv tasks' (pairs, displayTasks)
                        in (pairs', displayTasks', tasks', alreadyAdded'))
                (p_BuildVariants p) (pairs0, [], tasks0, \<lambda>_. False)
     in \<lparr>tvp_ExecTasks = pairs, tvp_DisplayTasks = displayTasks\<rparr>)"

section \<open>Aliases\<close>

text \<open>
  \<^verbatim>\<open>BuildProjectTVPairsWithAlias\<close>, innermost loop first: the tasks of the project
  for one rule and one matching variant.
\<close>

fun aliasTaskPairs ::
  "Project \<Rightarrow> ProjectAlias \<Rightarrow> (string \<Rightarrow> bool) \<Rightarrow> BuildVariant \<Rightarrow> ProjectTask list
    \<Rightarrow> TVPair list \<Rightarrow> failure + TVPair list" where
  "aliasTaskPairs p v taskRegex variant [] pairs = Inr pairs"
| "aliasTaskPairs p v taskRegex variant (task # rest) pairs =
    (if pt_Patchable task = Some False
     then aliasTaskPairs p v taskRegex variant rest pairs
     else if \<not> ((a_Task v \<noteq> [] \<and> taskRegex (pt_Name task)) \<or>
                 (length (a_Tags v) > 0 \<and>
                  length (StringSliceIntersection (pt_Tags task) (a_Tags v)) > 0))
     then aliasTaskPairs p v taskRegex variant rest pairs
     else (case FindTaskForVariant p (pt_Name task) (bv_Name variant) of
             Inl e \<Rightarrow> Inl e
           | Inr None \<Rightarrow> aliasTaskPairs p v taskRegex variant rest pairs
           | Inr (Some _) \<Rightarrow>
               aliasTaskPairs p v taskRegex variant rest
                 (pairs @ [\<lparr>Variant = bv_Name variant, TaskName = pt_Name task\<rparr>])))"

definition aliasDisplayPairs ::
  "ProjectAlias \<Rightarrow> (string \<Rightarrow> bool) \<Rightarrow> BuildVariant \<Rightarrow> TVPair list \<Rightarrow> TVPair list" where
  "aliasDisplayPairs v taskRegex variant displayTaskPairs =
    (if a_Task v = [] then displayTaskPairs
     else fold (\<lambda>displayTask acc.
                  if \<not> taskRegex (dt_Name displayTask) then acc
                  else acc @ [\<lparr>Variant = bv_Name variant, TaskName = dt_Name displayTask\<rparr>])
               (bv_DisplayTasks variant) displayTaskPairs)"

fun aliasVariants ::
  "Project \<Rightarrow> ProjectAlias \<Rightarrow> (string \<Rightarrow> bool) \<Rightarrow> (string \<Rightarrow> bool) \<Rightarrow> BuildVariant list
    \<Rightarrow> TVPair list \<times> TVPair list \<Rightarrow> failure + TVPair list \<times> TVPair list" where
  "aliasVariants p v variantRegex taskRegex [] st = Inr st"
| "aliasVariants p v variantRegex taskRegex (variant # rest) (pairs, displayTaskPairs) =
    (if variantRegex (bv_Name variant)
     then (case aliasTaskPairs p v taskRegex variant (p_Tasks p) pairs of
             Inl e \<Rightarrow> Inl e
           | Inr pairs' \<Rightarrow>
               aliasVariants p v variantRegex taskRegex rest
                 (pairs', aliasDisplayPairs v taskRegex variant displayTaskPairs))
     else aliasVariants p v variantRegex taskRegex rest (pairs, displayTaskPairs))"

fun aliasRules ::
  "Externals \<Rightarrow> Project \<Rightarrow> ProjectAlias list \<Rightarrow> TVPair list \<times> TVPair list
    \<Rightarrow> failure + TVPair list \<times> TVPair list" where
  "aliasRules ext p [] st = Inr st"
| "aliasRules ext p (v # rest) st =
    (case RegexpCompile ext (a_Variant v) of
       None \<Rightarrow> Inl (RegexpError (a_Variant v))
     | Some variantRegex \<Rightarrow>
        (case RegexpCompile ext (a_Task v) of
           None \<Rightarrow> Inl (RegexpError (a_Task v))
         | Some taskRegex \<Rightarrow>
            (case aliasVariants p v variantRegex taskRegex (p_BuildVariants p) st of
               Inl e \<Rightarrow> Inl e
             | Inr st' \<Rightarrow> aliasRules ext p rest st')))"

definition BuildProjectTVPairsWithAlias ::
  "Externals \<Rightarrow> Project \<Rightarrow> string \<Rightarrow> failure + TVPair list \<times> TVPair list" where
  "BuildProjectTVPairsWithAlias ext p alias =
    (case FindAliasInProject ext (p_Identifier p) alias of
       Inl e \<Rightarrow> Inl e
     | Inr vars \<Rightarrow> aliasRules ext p vars ([], []))"

section \<open>Selection\<close>

text \<open>
  \<^verbatim>\<open>BuildProjectTVPairs\<close>: the two wildcard expansions, the cross product filtered
  by \<^verbatim>\<open>FindTaskForVariant\<close>, the alias, and the rest.
\<close>

definition expandAllVariants :: "Project \<Rightarrow> Patch \<Rightarrow> Patch" where
  "expandAllVariants p patchDoc =
    (if length (patch_BuildVariants patchDoc) = 1 \<and> patch_BuildVariants patchDoc ! 0 = ''all''
     then patchDoc\<lparr>patch_BuildVariants :=
            fold (\<lambda>buildVariant acc.
                    if bv_Disabled buildVariant then acc else acc @ [bv_Name buildVariant])
                 (p_BuildVariants p) []\<rparr>
     else patchDoc)"

definition expandAllTasks :: "Project \<Rightarrow> Patch \<Rightarrow> Patch" where
  "expandAllTasks p patchDoc =
    (if length (patch_Tasks patchDoc) = 1 \<and> patch_Tasks patchDoc ! 0 = ''all''
     then patchDoc\<lparr>patch_Tasks :=
            fold (\<lambda>t acc.
                    if pt_Patchable t = Some False then acc else acc @ [pt_Name t])
                 (p_Tasks p) []\<rparr>
     else patchDoc)"

fun selectTasks :: "Project \<Rightarrow> string \<Rightarrow> string list \<Rightarrow> TVPair list \<Rightarrow> failure + TVPair list" where
  "selectTasks p v [] pairs = Inr pairs"
| "selectTasks p v (t # ts) pairs =
    (case FindTaskForVariant p t v of
       Inl e \<Rightarrow> Inl e
     | Inr None \<Rightarrow> selectTasks p v ts pairs
     | Inr (Some _) \<Rightarrow> selectTasks p v ts (pairs @ [\<lparr>Variant = v, TaskName = t\<rparr>]))"

fun selectPairs ::
  "Project \<Rightarrow> string list \<Rightarrow> string list \<Rightarrow> TVPair list \<Rightarrow> failure + TVPair list" where
  "selectPairs p [] ts pairs = Inr pairs"
| "selectPairs p (v # vs) ts pairs =
    (case selectTasks p v ts pairs of
       Inl e \<Rightarrow> Inl e
     | Inr pairs' \<Rightarrow> selectPairs p vs ts pairs')"

text \<open>
  The alias part: an error of \<^verbatim>\<open>BuildProjectTVPairsWithAlias\<close> is logged and the
  pairs stay as they are; a panic is not an error value and ends the call.
\<close>

definition addAliasNames :: "TVPair list \<Rightarrow> Patch \<Rightarrow> Patch" where
  "addAliasNames displayTaskPairs patchDoc =
    fold (\<lambda>pair pd.
            let pd1 = (if \<not> StringSliceContains (patch_BuildVariants pd) (Variant pair)
                       then pd\<lparr>patch_BuildVariants := patch_BuildVariants pd @ [Variant pair]\<rparr>
                       else pd)
            in (if \<not> StringSliceContains (patch_Tasks pd1) (TaskName pair)
                then pd1\<lparr>patch_Tasks := patch_Tasks pd1 @ [TaskName pair]\<rparr>
                else pd1))
         displayTaskPairs patchDoc"

definition includeAlias ::
  "Externals \<Rightarrow> Project \<Rightarrow> string \<Rightarrow> TVPair list \<times> Patch \<Rightarrow> failure + TVPair list \<times> Patch" where
  "includeAlias ext p alias st =
    (if alias \<noteq> []
     then (case BuildProjectTVPairsWithAlias ext p alias of
             Inl NilDereference \<Rightarrow> Inl NilDereference
           | Inl _ \<Rightarrow> Inr st
           | Inr (aliasPairs, displayTaskPairs) \<Rightarrow>
               Inr (fst st @ aliasPairs, addAliasNames displayTaskPairs (snd st)))
     else Inr st)"

text \<open>
  What \<^verbatim>\<open>BuildProjectTVPairs\<close> does once the request lists are expanded; the result
  is the patch document after the call.
\<close>

definition resolveSelection :: "Externals \<Rightarrow> Project \<Rightarrow> Patch \<Rightarrow> string \<Rightarrow> failure + Patch" where
  "resolveSelection ext p patchDoc alias =
    (case selectPairs p (patch_BuildVariants patchDoc) (patch_Tasks patchDoc) [] of
       Inl e \<Rightarrow> Inl e
     | Inr pairs \<Rightarrow>
        (case includeAlias ext p alias (pairs, patchDoc) of
           Inl e \<Rightarrow> Inl e
         | Inr (pairs', patchDoc') \<Rightarrow>
            (let tasks = extractDisplayTasks pairs' (patch_Tasks patchDoc')
                           (patch_BuildVariants patchDoc') p;
                 tasks' = tasks\<lparr>tvp_ExecTasks := IncludePatchDependencies ext p (tvp_ExecTasks tasks)\<rparr>
             in Inr (SyncVariantsTasks ext tasks' patchDoc'))))"

definition BuildProjectTVPairs :: "Externals \<Rightarrow> Project \<Rightarrow> Patch \<Rightarrow> string \<Rightarrow> failure + Patch" where
  "BuildProjectTVPairs ext p patchDoc alias =
    resolveSelection ext p (expandAllTasks p (expandAllVariants p patchDoc)) alias"

section \<open>Concrete values\<close>

text \<open>
  Go composite literals that name some fields and leave the others at their zero
  value, for the concrete projects the theorems are evaluated on.
\<close>

definition taskUnit :: "string \<Rightarrow> BuildVariantTaskUnit" where
  "taskUnit name =
    \<lparr>bvt_Name = name, bvt_IsGroup = False, bvt_GroupName = [], bvt_Patchable = None,
     bvt_Priority = 0, bvt_DependsOn = [], bvt_Requires = [], bvt_Distros = [],
     bvt_ExecTimeoutSecs = 0, bvt_Stepback = None\<rparr>"

definition buildVariant ::
  "string \<Rightarrow> string \<Rightarrow> BuildVariantTaskUnit list \<Rightarrow> DisplayTask list \<Rightarrow> BuildVariant" where
  "buildVariant name displayName tasks displayTasks =
    \<lparr>bv_Name = name, bv_DisplayName = displayName, bv_Disabled = False, bv_Tags = [],
     bv_RunOn = [], bv_Tasks = tasks, bv_DisplayTasks = displayTasks\<rparr>"

definition projectTask :: "string \<Rightarrow> string list \<Rightarrow> bool option \<Rightarrow> ProjectTask" where
  "projectTask name tags patchable =
    \<lparr>pt_Name = name, pt_Priority = 0, pt_ExecTimeoutSecs = 0, pt_DependsOn = [],
     pt_Requires = [], pt_Commands = [], pt_Tags = tags, pt_Patchable = patchable,
     pt_Stepback = None\<rparr>"

definition taskGroup :: "string \<Rightarrow> string list \<Rightarrow> TaskGroup" where
  "taskGroup name tasks =
    \<lparr>tg_Name = name, tg_MaxHosts = 0, tg_Tasks = tasks, tg_Tags = [], tg_ShareProcs = False\<rparr>"

definition dependsOn :: "string \<Rightarrow> TaskUnitDependency" where
  "dependsOn name =
    \<lparr>dep_Name = name, dep_Variant = [], dep_Status = [], dep_PatchOptional = False\<rparr>"

text \<open>
  A fragment of Go's \<^verbatim>\<open>regexp\<close>, for evaluation: an optional \<^verbatim>\<open>^\<close>, then
  literal characters and \<^verbatim>\<open>.\<close> (any character but a newline), each optionally
  followed by \<^verbatim>\<open>*\<close>, then an optional \<^verbatim>\<open>$\<close>. \<^verbatim>\<open>MatchString\<close> reports whether
  the string contains a match, so an expression without \<^verbatim>\<open>^\<close> is tried at every
  position. A pattern outside the fragment is answered \<open>None\<close> here (Go accepts some
  of them); the theorems only use patterns of the fragment.
\<close>

datatype reAtom = Lit char | AnyChar

fun atomMatches :: "reAtom \<Rightarrow> char \<Rightarrow> bool" where
  "atomMatches (Lit c) x = (x = c)"
| "atomMatches AnyChar x = (x \<noteq> CHR 0x0A)"

fun matchHere :: "(reAtom \<times> bool) list \<Rightarrow> bool \<Rightarrow> string \<Rightarrow> bool"
  and matchStar :: "reAtom \<Rightarrow> (reAtom \<times> bool) list \<Rightarrow> bool \<Rightarrow> string \<Rightarrow> bool" where
  "matchHere [] atEnd s = (if atEnd then s = [] else True)"
| "matchHere ((a, False) # items) atEnd [] = False"
| "matchHere ((a, False) # items) atEnd (c # cs) = (atomMatches a c \<and> matchHere items atEnd cs)"
| "matchHere ((a, True) # items) atEnd s = matchStar a items atEnd s"
| "matchStar a items atEnd [] = matchHere items atEnd []"
| "matchStar a items atEnd (c # cs) =
    (if matchHere items atEnd (c # cs) then True
     else atomMatches a c \<and> matchStar a items atEnd cs)"

definition isMeta :: "char \<Rightarrow> bool" where
  "isMeta c = (c \<in> set ''.+*?()|[]{}^$'' \<or> c = CHR 0x5C)"

definition atomOf :: "char \<Rightarrow> reAtom" where
  "atomOf c = (if c = CHR ''.'' then AnyChar else Lit c)"

fun parseItems :: "string \<Rightarrow> (reAtom \<times> bool) list option" where
  "parseItems [] = Some []"
| "parseItems [c] = (if c \<noteq> CHR ''.'' \<and> isMeta c then None else Some [(atomOf c, False)])"
| "parseItems (c # d # ds) =
    (if c \<noteq> CHR ''.'' \<and> isMeta c then None
     else if d = CHR ''*'' then map_option (Cons (atomOf c, True)) (parseItems ds)
     else map_option (Cons (atomOf c, False)) (parseItems (d # ds)))"

fun tails :: "string \<Rightarrow> string list" where
  "tails [] = [[]]"
| "tails (c # cs) = (c # cs) # tails cs"

definition fragmentRegexp :: "string \<Rightarrow> (string \<Rightarrow> bool) option" where
  "fragmentRegexp pat =
    (let atStart = (pat \<noteq> [] \<and> hd pat = CHR ''^'');
         body1 = (if atStart then tl pat else pat);
         atEnd = (body1 \<noteq> [] \<and> last body1 = CHR ''$'');
         body = (if atEnd then butlast body1 else body1)
     in map_option
          (\<lambda>items s. if atStart then matchHere items atEnd s
                      else list_ex (matchHere items atEnd) (tails s))
          (parseItems body))"

text \<open>
  The reading of the alias patterns as anchored expressions: the pattern between
  \<^verbatim>\<open>^\<close> and \<^verbatim>\<open>$\<close>, so that only a match of the whole name counts.
\<close>

definition anchoredRegexp :: "string \<Rightarrow> (string \<Rightarrow> bool) option" where
  "anchoredRegexp pat = fragmentRegexp (''^'' @ pat @ ''$'')"

text \<open>
  Modelled from the spec: \<^verbatim>\<open>util.CleanName\<close>, \<^verbatim>\<open>evergreen.IsPatchRequester\<close> and
  \<^verbatim>\<open>build.IdTimeLayout\<close> are not in these files. The spec says the id is
  "sanitized to a safe identifier character set", that a patch context is one whose
  requester "is a patch-type requester", and that the creation time is "formatted with
  a fixed layout". This instance replaces dashes and spaces by underscores, takes the
  patch and the pull-request requester for patch-type, and writes the time as six
  two-digit fields. It only instantiates the theorems at concrete inputs.
\<close>

definition twoDigits :: "nat \<Rightarrow> string" where
  "twoDigits n = [''0123456789'' ! (n div 10 mod 10), ''0123456789'' ! (n mod 10)]"

definition formatIdTime :: "Time \<Rightarrow> string" where
  "formatIdTime t =
    twoDigits (t_Year t) @ ''_'' @ twoDigits (t_Month t) @ ''_'' @ twoDigits (t_Day t) @ ''_''
      @ twoDigits (t_Hour t) @ ''_'' @ twoDigits (t_Minute t) @ ''_'' @ twoDigits (t_Second t)"

definition sampleExternals :: "ProjectAlias list \<Rightarrow> Externals" where
  "sampleExternals vars =
    \<lparr>CleanName = map (\<lambda>c. if c = CHR ''-'' \<or> c = CHR '' '' then CHR ''_'' else c),
     IsPatchRequester = (\<lambda>r. r = ''patch_request'' \<or> r = ''github_pull_request''),
     FormatIdTime = formatIdTime,
     RegexpCompile = fragmentRegexp,
     FindAliasInProject = (\<lambda>project alias. Inr vars),
     IncludePatchDependencies = (\<lambda>p pairs. pairs),
     SyncVariantsTasks = (\<lambda>tasks patchDoc. patchDoc)\<rparr>"

definition sampleTime :: Time where
  "sampleTime =
    \<lparr>t_Year = 2018, t_Month = 3, t_Day = 5, t_Hour = 12, t_Minute = 0, t_Second = 0,
     t_Nanosecond = 0\<rparr>"

definition sampleVersion :: "string \<Rightarrow> string \<Rightarrow> Version" where
  "sampleVersion requester ident =
    \<lparr>v_Revision = ''abc123'', v_Id = ident, v_Requester = requester,
     v_CreateTime = sampleTime\<rparr>"

section \<open>Theorems\<close>

lemma Populate_fields:
  "bvt_DependsOn (Populate u t) = (if bvt_DependsOn u = [] then pt_DependsOn t else bvt_DependsOn u)"
  "bvt_Requires (Populate u t) = (if bvt_Requires u = [] then pt_Requires t else bvt_Requires u)"
  "bvt_Priority (Populate u t) = (if bvt_Priority u = 0 then pt_Priority t else bvt_Priority u)"
  "bvt_Patchable (Populate u t) = (if bvt_Patchable u = None then pt_Patchable t else bvt_Patchable u)"
  "bvt_ExecTimeoutSecs (Populate u t) =
     (if bvt_ExecTimeoutSecs u = 0 then pt_ExecTimeoutSecs t else bvt_ExecTimeoutSecs u)"
  "bvt_Stepback (Populate u t) = (if bvt_Stepback u = None then pt_Stepback t else bvt_Stepback u)"
  "bvt_Name (Populate u t) = bvt_Name u"
  "bvt_IsGroup (Populate u t) = bvt_IsGroup u"
  "bvt_GroupName (Populate u t) = bvt_GroupName u"
  "bvt_Distros (Populate u t) = bvt_Distros u"
  by (auto simp: Populate_def Let_def)

text \<open>
  C3. For every project task \<open>T\<close> and variant unit \<open>U\<close>, \<open>Populate U T\<close> takes each
  of DependsOn, Requires, Priority, Patchable, ExecTimeoutSecs and Stepback from \<open>T\<close>
  exactly when the field of \<open>U\<close> is at its zero value (empty list, zero, nil) and keeps
  the field of \<open>U\<close> otherwise; Name, IsGroup, GroupName and Distros are never touched
  (the unit has no commands, and \<open>T\<close> is passed by value); and merging the same task
  twice gives the same unit as merging it once.
\<close>

theorem Populate_sparse_idempotent:
  "bvt_DependsOn (Populate U T) = (if bvt_DependsOn U = [] then pt_DependsOn T else bvt_DependsOn U)
   \<and> bvt_Requires (Populate U T) = (if bvt_Requires U = [] then pt_Requires T else bvt_Requires U)
   \<and> bvt_Priority (Populate U T) = (if bvt_Priority U = 0 then pt_Priority T else bvt_Priority U)
   \<and> bvt_Patchable (Populate U T) =
        (if bvt_Patchable U = None then pt_Patchable T else bvt_Patchable U)
   \<and> bvt_ExecTimeoutSecs (Populate U T) =
        (if bvt_ExecTimeoutSecs U = 0 then pt_ExecTimeoutSecs T else bvt_ExecTimeoutSecs U)
   \<and> bvt_Stepback (Populate U T) =
        (if bvt_Stepback U = None then pt_Stepback T else bvt_Stepback U)
   \<and> bvt_Name (Populate U T) = bvt_Name U
   \<and> bvt_IsGroup (Populate U T) = bvt_IsGroup U
   \<and> bvt_GroupName (Populate U T) = bvt_GroupName U
   \<and> bvt_Distros (Populate U T) = bvt_Distros U
   \<and> Populate (Populate U T) T = Populate U T"
proof -
  have idem: "Populate (Populate U T) T = Populate U T"
    by (rule BuildVariantTaskUnit.equality) (simp_all add: Populate_fields)
  show ?thesis
    using idem by (simp add: Populate_fields)
qed

theorem Populate_sparse_idempotent_witness:
  "bvt_Priority (Populate ((taskUnit ''test'')\<lparr>bvt_Priority := 7\<rparr>)
       ((projectTask ''test'' [] (Some False))\<lparr>pt_Priority := 3, pt_DependsOn := [dependsOn ''compile'']\<rparr>)) = 7
   \<and> bvt_DependsOn (Populate ((taskUnit ''test'')\<lparr>bvt_Priority := 7\<rparr>)
       ((projectTask ''test'' [] (Some False))\<lparr>pt_Priority := 3, pt_DependsOn := [dependsOn ''compile'']\<rparr>))
      = [dependsOn ''compile'']
   \<and> bvt_Patchable (Populate ((taskUnit ''test'')\<lparr>bvt_Priority := 7\<rparr>)
       ((projectTask ''test'' [] (Some False))\<lparr>pt_Priority := 3, pt_DependsOn := [dependsOn ''compile'']\<rparr>))
      = Some False"
  using Populate_sparse_idempotent
    [of "(taskUnit ''test'')\<lparr>bvt_Priority := 7\<rparr>"
        "(projectTask ''test'' [] (Some False))\<lparr>pt_Priority := 3, pt_DependsOn := [dependsOn ''compile'']\<rparr>"]
  by (simp add: taskUnit_def projectTask_def)

text \<open>
  C1. \<open>FindTaskForVariant\<close> is claimed to return nil, and never to panic, when a
  task-group member has no task definition in the project. On the project below the
  variant \<open>v1\<close> lists the group \<open>tg\<close>, whose member \<open>ghost\<close> is no task of the
  project: the call dereferences the nil result of \<open>FindProjectTask\<close>.
\<close>

theorem FindTaskForVariant_group_member_panics:
  "FindTaskForVariant
     \<lparr>p_Identifier = ''proj'',
      p_BuildVariants = [buildVariant ''v1'' ''v1'' [taskUnit ''tg''] []],
      p_TaskGroups = [taskGroup ''tg'' [''ghost'']],
      p_Tasks = []\<rparr>
     ''ghost'' ''v1'' = Inl NilDereference"
  by (simp add: FindTaskForVariant_def FindBuildVariant_def FindProjectTask_def mkTgMap_def
      buildVariant_def taskUnit_def taskGroup_def)


end
